theory Spec2Isabelle
  imports Main "HOL-Library.Char_ord" "HOL-Library.List_Lexorder"
begin

section \<open>Python strings\<close>

text \<open>
  A Python \<open>str\<close> is modelled as a \<open>string\<close> (a list of 8-bit characters) holding ASCII
  text; a character above 127 is an ordinary character that is neither a letter with a case,
  nor white space, nor a line boundary.  Strings are ordered as Python orders them: character
  by character on the code, a proper prefix first (\<open>Char_ord\<close>, \<open>List_Lexorder\<close>).
  The functions below are the \<open>str\<close> methods and operators that \<open>AppVault.py\<close> uses.
\<close>

text \<open>\<open>str.lower\<close>\<close>

definition lower_char :: "char \<Rightarrow> char" where
  "lower_char c =
     (if CHR ''A'' \<le> c \<and> c \<le> CHR ''Z'' then char_of (of_char c + (32::nat)) else c)"

definition lower :: "string \<Rightarrow> string" where
  "lower s = map lower_char s"

text \<open>\<open>str.isspace\<close> on one character: tab, the line boundaries, the separators
  \<open>0x1C\<close> to \<open>0x1F\<close>, and the blank.\<close>

definition isspace :: "char \<Rightarrow> bool" where
  "isspace c = (c \<in> set [CHR 0x09, CHR 0x0A, CHR 0x0B, CHR 0x0C, CHR 0x0D,
                          CHR 0x1C, CHR 0x1D, CHR 0x1E, CHR 0x1F, CHR 0x20])"

text \<open>\<open>str.strip()\<close>: white space removed at both ends.\<close>

definition strip :: "string \<Rightarrow> string" where
  "strip s = rev (dropWhile isspace (rev (dropWhile isspace s)))"

text \<open>\<open>s.startswith(p)\<close> and the substring test \<open>w in s\<close>.\<close>

fun startswith :: "string \<Rightarrow> string \<Rightarrow> bool" where
  "startswith s [] = True"
| "startswith [] (p # ps) = False"
| "startswith (c # cs) (p # ps) = (c = p \<and> startswith cs ps)"

fun contains :: "string \<Rightarrow> string \<Rightarrow> bool" where
  "contains w [] = (w = [])"
| "contains w (c # cs) = (startswith (c # cs) w \<or> contains w cs)"

text \<open>\<open>str.split()\<close> without argument: the maximal runs of characters that are not white
  space, in order; never an empty token.\<close>

fun split_ws :: "string \<Rightarrow> string \<Rightarrow> string list" where
  "split_ws cur [] = (if cur = [] then [] else [cur])"
| "split_ws cur (c # cs) =
     (if isspace c then (if cur = [] then split_ws [] cs else cur # split_ws [] cs)
      else split_ws (cur @ [c]) cs)"

definition split_str :: "string \<Rightarrow> string list" where
  "split_str s = split_ws [] s"

text \<open>\<open>str.splitlines()\<close>: a line ends at a line boundary (\<open>\r\n\<close> counts as one), the
  boundary is dropped, and a text that ends with a boundary has no empty last line.\<close>

definition is_linebreak :: "char \<Rightarrow> bool" where
  "is_linebreak c =
     (c \<in> set [CHR 0x0A, CHR 0x0B, CHR 0x0C, CHR 0x0D, CHR 0x1C, CHR 0x1D, CHR 0x1E])"

fun split_lines :: "string \<Rightarrow> string \<Rightarrow> string list" where
  "split_lines cur [] = (if cur = [] then [] else [cur])"
| "split_lines cur (c # cs) =
     (if c = CHR 0x0D then
        (case cs of
           [] \<Rightarrow> cur # split_lines [] cs
         | d # ds \<Rightarrow> if d = CHR 0x0A then cur # split_lines [] ds else cur # split_lines [] cs)
      else if is_linebreak c then cur # split_lines [] cs
      else split_lines (cur @ [c]) cs)"

definition splitlines :: "string \<Rightarrow> string list" where
  "splitlines s = split_lines [] s"

text \<open>\<open>sep.join(xs)\<close>\<close>

fun join :: "string \<Rightarrow> string list \<Rightarrow> string" where
  "join sep [] = []"
| "join sep [x] = x"
| "join sep (x # y # ys) = x @ sep @ join sep (y # ys)"


section \<open>Python exceptions\<close>

text \<open>
  The exceptions that the modelled code raises itself or receives from the library calls it
  makes, with the fields their messages are built from, and \<open>str(e)\<close>.  \<open>OSError\<close>
  (number, text, file name) comes from \<open>open\<close>, \<open>UnicodeDecodeError\<close> (encoding, byte,
  position, reason) from reading the file as UTF-8, \<open>JSONDecodeError\<close> (message, line,
  column, position) from \<open>json.load\<close>, \<open>AttributeError\<close> (type, attribute) from calling
  \<open>.get\<close> or \<open>.items\<close> on a value that is not a \<open>dict\<close>, the two kinds of
  \<open>TypeError\<close> from iterating a value that cannot be iterated and from calling
  \<open>AppRecord(...)\<close> without its required argument, \<open>IndexError\<close> from \<open>apps[idx]\<close>.
\<close>

fun show_nat :: "nat \<Rightarrow> string" where
  "show_nat n =
     (if n < 10 then [char_of (48 + n)] else show_nat (n div 10) @ [char_of (48 + n mod 10)])"

definition hex2 :: "nat \<Rightarrow> string" where
  "hex2 n = [''0123456789abcdef'' ! ((n div 16) mod 16), ''0123456789abcdef'' ! (n mod 16)]"

definition quoted :: "string \<Rightarrow> string" where
  "quoted s = [CHR 0x27] @ s @ [CHR 0x27]"

datatype exn =
    OSError nat string string
  | UnicodeDecodeError string nat nat string
  | JSONDecodeError string nat nat nat
  | AttributeError string string
  | TypeError_not_iterable string
  | TypeError_missing_argument string
  | IndexError

fun str_exn :: "exn \<Rightarrow> string" where
  "str_exn (OSError errno strerror filename) =
     ''[Errno '' @ show_nat errno @ ''] '' @ strerror @ '': '' @ quoted filename"
| "str_exn (UnicodeDecodeError encoding byte pos reason) =
     quoted encoding @ '' codec can't decode byte 0x'' @ hex2 byte @ '' in position ''
       @ show_nat pos @ '': '' @ reason"
| "str_exn (JSONDecodeError msg lineno colno pos) =
     msg @ '': line '' @ show_nat lineno @ '' column '' @ show_nat colno
       @ '' (char '' @ show_nat pos @ '')''"
| "str_exn (AttributeError ty attr) =
     quoted ty @ '' object has no attribute '' @ quoted attr"
| "str_exn (TypeError_not_iterable ty) = quoted ty @ '' object is not iterable''"
| "str_exn (TypeError_missing_argument arg) =
     ''AppRecord.__init__() missing 1 required positional argument: '' @ quoted arg"
| "str_exn IndexError = ''list index out of range''"


section \<open>Registry scanner\<close>

text \<open>
  The dataclass \<open>AppRecord\<close>.  Python does not enforce the \<open>str\<close> annotations of its
  fields, so the record is polymorphic in the type of the field values: the scanner, the
  matcher and the installer work on \<open>string AppRecord\<close>, the import builds records from
  whatever JSON values the document holds.
\<close>

record 'v AppRecord =
  name :: 'v
  publisher :: 'v
  version :: 'v
  uninstall_string :: 'v
  install_location :: 'v
  source :: 'v
  winget_id :: 'v
  winget_status :: 'v
  install_status :: 'v
  install_error :: 'v

subsection \<open>The patterns of \<open>WINDOWS_BUILTIN_PATTERNS\<close>\<close>

text \<open>
  The regular expressions of the source use literal characters (some escaped), the class
  \<open>\d\<close> with the repetition \<open>{6,}\<close>, and the anchor \<open>^\<close> in front.  A pattern is a
  list of pieces with a flag for the anchor; \<open>re_search\<close> is \<open>re.search\<close> on such a
  pattern: a match that starts anywhere in the text, or at its start under \<open>^\<close>.
\<close>

datatype atom = Lit char | Digit

datatype piece = One atom | AtLeast nat atom

datatype regex = Regex bool "piece list"

definition isdigit :: "char \<Rightarrow> bool" where
  "isdigit c = (CHR ''0'' \<le> c \<and> c \<le> CHR ''9'')"

fun atom_ok :: "atom \<Rightarrow> char \<Rightarrow> bool" where
  "atom_ok (Lit x) c = (c = x)"
| "atom_ok Digit c = isdigit c"

fun match_here :: "piece list \<Rightarrow> string \<Rightarrow> bool" where
  "match_here [] s = True"
| "match_here (One a # ps) s =
     (case s of [] \<Rightarrow> False | c # cs \<Rightarrow> atom_ok a c \<and> match_here ps cs)"
| "match_here (AtLeast n a # ps) s =
     list_ex (\<lambda>k. match_here ps (drop k s)) [n ..< Suc (length (takeWhile (atom_ok a) s))]"

fun re_search :: "regex \<Rightarrow> string \<Rightarrow> bool" where
  "re_search (Regex anchored ps) s =
     (if anchored then match_here ps s
      else list_ex (\<lambda>k. match_here ps (drop k s)) [0 ..< Suc (length s)])"

definition lit :: "string \<Rightarrow> piece list" where
  "lit s = map (\<lambda>c. One (Lit c)) s"

definition WINDOWS_BUILTIN_PATTERNS :: "regex list" where
  "WINDOWS_BUILTIN_PATTERNS =
    [Regex False (lit ''microsoft.net''), Regex False (lit ''microsoft visual c++''),
     Regex False (lit ''windows sdk''),
     Regex False (lit ''kb'' @ [AtLeast 6 Digit]), Regex False (lit ''update for microsoft''),
     Regex False (lit ''security update''),
     Regex False (lit ''microsoft.directx''), Regex False (lit ''directx''),
     Regex False (lit ''windows subsystem''),
     Regex True (lit ''microsoft windows''), Regex False (lit ''nvidia physx''),
     Regex True (lit ''intel(r)''),
     Regex False (lit ''microsoft edge webview''), Regex False (lit ''windows pc health'')]"

definition EXCLUDE_PUBLISHERS :: "string set" where
  "EXCLUDE_PUBLISHERS = {''microsoft corporation'', ''microsoft windows'', ''windows''}"

definition allowed_ms :: "string list" where
  "allowed_ms = [''microsoft office'', ''microsoft 365'', ''visual studio code'',
                 ''microsoft teams'', ''onedrive'', ''onenote'', ''skype'']"

subsection \<open>\<open>_is_builtin\<close>\<close>

text \<open>The two tests of \<open>_is_builtin\<close> on the lower-cased name: some pattern is found in it,
  some allowed phrase occurs in it.\<close>

definition name_matches_pattern :: "string \<Rightarrow> bool" where
  "name_matches_pattern nl = list_ex (\<lambda>pat. re_search pat nl) WINDOWS_BUILTIN_PATTERNS"

definition name_allowed :: "string \<Rightarrow> bool" where
  "name_allowed nl = list_ex (\<lambda>a. contains a nl) allowed_ms"

definition is_builtin :: "string \<Rightarrow> string \<Rightarrow> bool" where
  "is_builtin nm pub =
     (let nl = lower nm in
      if name_matches_pattern nl then True
      else if lower pub \<in> EXCLUDE_PUBLISHERS then
        (if \<not> name_allowed nl then True else False)
      else False)"

subsection \<open>\<open>scan_installed_apps\<close>\<close>

text \<open>
  The three calls of \<open>_read_hive\<close> read the registry; their results are the arguments
  here, in the order of the calls.  \<open>dedup_loop\<close> is the loop over \<open>apps\<close> with its two
  variables \<open>seen\<close> and \<open>unique\<close>; \<open>sorted(unique, key=...)\<close> is a stable sort, as
  \<open>sort_key\<close> is.
\<close>

fun dedup_loop ::
  "string set \<Rightarrow> string AppRecord list \<Rightarrow> string AppRecord list \<Rightarrow> string AppRecord list" where
  "dedup_loop seen unique [] = unique"
| "dedup_loop seen unique (a # apps) =
     (let key = lower (name a) in
      if key \<notin> seen then dedup_loop (insert key seen) (unique @ [a]) apps
      else dedup_loop seen unique apps)"

definition scan_installed_apps ::
  "string AppRecord list \<Rightarrow> string AppRecord list \<Rightarrow> string AppRecord list
     \<Rightarrow> string AppRecord list" where
  "scan_installed_apps hklm64 hklm32 hkcu =
     (let apps = hklm64 @ hklm32 @ hkcu;
          unique = dedup_loop {} [] apps
      in sort_key (\<lambda>x. lower (name x)) unique)"

text \<open>A record as \<open>_read_hive\<close> builds it: the six registry fields, the other four at their
  defaults.\<close>

definition scanned :: "string \<Rightarrow> string \<Rightarrow> string \<Rightarrow> string AppRecord" where
  "scanned nm pub src =
     \<lparr>name = nm, publisher = pub, version = '''', uninstall_string = '''',
      install_location = '''', source = src, winget_id = '''', winget_status = ''unknown'',
      install_status = '''', install_error = ''''\<rparr>"

text \<open>For the proofs: the loop without its accumulator.\<close>

fun first_seen :: "string set \<Rightarrow> string AppRecord list \<Rightarrow> string AppRecord list" where
  "first_seen seen [] = []"
| "first_seen seen (a # apps) =
     (if lower (name a) \<notin> seen then a # first_seen (insert (lower (name a)) seen) apps
      else first_seen seen apps)"


section \<open>Winget matcher\<close>

subsection \<open>\<open>_parse_winget_id\<close>\<close>

text \<open>
  The test of the inner loop on one token of a row (\<open>"." in p and not p.startswith("-") and
  len(p) > 3\<close>), and the inner loop itself: it stops (\<open>break\<close>) at the first token that
  passes, and yields that token with its position \<open>i\<close>.
\<close>

definition is_candidate :: "string \<Rightarrow> bool" where
  "is_candidate p = (contains ''.'' p \<and> \<not> startswith p ''-'' \<and> length p > 3)"

fun first_candidate :: "nat \<Rightarrow> string list \<Rightarrow> (nat \<times> string) option" where
  "first_candidate i [] = None"
| "first_candidate i (p # ps) =
     (if is_candidate p then Some (i, p) else first_candidate (Suc i) ps)"

text \<open>The score of the token at position \<open>i\<close>: the words of the lower-cased name that occur
  in \<open>" ".join(parts[:i]).lower()\<close>.\<close>

definition row_score :: "string \<Rightarrow> string list \<Rightarrow> nat \<Rightarrow> nat" where
  "row_score name_lower parts i =
     (let row_text = lower (join '' '' (take i parts))
      in length (filter (\<lambda>word. contains word row_text) (split_str name_lower)))"

text \<open>The body of the outer loop, on the pair \<open>(best_id, best_score)\<close>.\<close>

definition consider_line :: "string \<Rightarrow> string \<times> nat \<Rightarrow> string \<Rightarrow> string \<times> nat" where
  "consider_line name_lower best line =
     (let parts = split_str line in
      if length parts < 2 then best
      else (case first_candidate 0 parts of
              None \<Rightarrow> best
            | Some (i, p) \<Rightarrow>
                (let candidate_id = p;
                     score = row_score name_lower parts i
                 in if score > snd best \<or> (score = snd best \<and> fst best = [])
                    then (candidate_id, score) else best)))"

definition parse_winget_id :: "string \<Rightarrow> string \<Rightarrow> string" where
  "parse_winget_id output nm =
     (let lines = splitlines (strip output);
          name_lower = lower nm
      in fst (foldl (consider_line name_lower) ([], 0) lines))"

subsection \<open>\<open>_search_winget\<close>\<close>

text \<open>
  The argument \<open>run\<close> is the inner function \<open>_run\<close>: the standard output of the
  \<open>winget\<close> process started with the given arguments, or the empty string when starting or
  waiting for it raises.
\<close>

definition search_winget :: "(string list \<Rightarrow> string) \<Rightarrow> string \<Rightarrow> string \<times> string" where
  "search_winget run app_name =
     (let out = run [''winget'', ''search'', ''--exact'', ''--name'', app_name,
                     ''--accept-source-agreements''];
          pkg_id = parse_winget_id out app_name
      in if pkg_id \<noteq> [] then (pkg_id, ''found'')
         else
           (let short = (case split_str app_name of [] \<Rightarrow> app_name | w # ws \<Rightarrow> w);
                out = run [''winget'', ''search'', ''--name'', short,
                           ''--accept-source-agreements''];
                pkg_id = parse_winget_id out app_name
            in if pkg_id \<noteq> [] then (pkg_id, ''found'') else ([], ''not_found'')))"

text \<open>
  For the statements: the candidate that one row offers to the outer loop, with its score
  (none for a row of fewer than two tokens or without a token that passes the test), the
  candidates of all rows in order, and the update of \<open>(best_id, best_score)\<close> by one
  candidate.
\<close>

definition row_candidate :: "string \<Rightarrow> string \<Rightarrow> (string \<times> nat) option" where
  "row_candidate name_lower line =
     (let parts = split_str line in
      if length parts < 2 then None
      else map_option (\<lambda>(i, p). (p, row_score name_lower parts i)) (first_candidate 0 parts))"

definition row_candidates :: "string \<Rightarrow> string \<Rightarrow> (string \<times> nat) list" where
  "row_candidates output nm =
     List.map_filter (row_candidate (lower nm)) (splitlines (strip output))"

definition keep :: "string \<times> nat \<Rightarrow> string \<times> nat \<Rightarrow> string \<times> nat" where
  "keep best c = (if snd c > snd best \<or> (snd c = snd best \<and> fst best = []) then c else best)"

subsection \<open>\<open>WingetMatcher.run\<close>\<close>

text \<open>
  A run of the worker is the list of what it does in order: the signals it emits
  (\<open>Progress\<close>, \<open>AppMatched\<close>, \<open>Finished\<close>), the calls of \<open>_search_winget\<close>, which
  start the catalog queries for one entry (\<open>SearchWinget\<close> with the index and the name),
  and, last, the exception that leaves \<open>run\<close> if one does (\<open>MatchRaised\<close>).

  The environment of a run: \<open>match_stop_flag env n\<close> is the value of \<open>self._stop\<close> that
  the test at the top of iteration \<open>n\<close> of the loop reads (another thread sets the flag
  through \<open>stop()\<close>; nothing resets it), and \<open>winget_search env n\<close> is the function
  \<open>_run\<close> during iteration \<open>n\<close>.  The indices are those the caller passes, positions
  counted by \<open>enumerate\<close>, hence natural numbers; \<open>apps[idx]\<close> raises \<open>IndexError\<close> for
  an index that is not a position of \<open>apps\<close>.  The records are read as they are when the
  run starts: the slot that stores a match changes the record of the index just matched,
  which the loop reads again only when the caller passes an index twice.
\<close>

datatype match_event =
    Progress nat nat
  | AppMatched nat string string
  | Finished
  | SearchWinget nat string
  | MatchRaised exn





section \<open>Installation engine\<close>

subsection \<open>\<open>_extract_winget_error\<close>\<close>

definition failure_keywords :: "string list" where
  "failure_keywords = [''error'', ''failed'', ''no package'', ''not found'', ''0x'']"

definition has_keyword :: "string \<Rightarrow> bool" where
  "has_keyword line = list_ex (\<lambda>kw. contains kw (lower line)) failure_keywords"

text \<open>The \<open>for\<close> loop with its \<open>return\<close>: \<open>None\<close> when the loop ends without returning.\<close>

fun first_error_line :: "string list \<Rightarrow> string option" where
  "first_error_line [] = None"
| "first_error_line (line # rest) =
     (if has_keyword line then Some (take 120 (strip line)) else first_error_line rest)"

text \<open>
  In the last line of the source \<open>splitlines()[-1]\<close> is evaluated only when
  \<open>output.strip()\<close> is not empty; the list of lines is then not empty
  (lemma \<open>last_line_of_stripped\<close> below), so \<open>last\<close> is the element read.
\<close>

definition extract_winget_error :: "string \<Rightarrow> string" where
  "extract_winget_error output =
     (case first_error_line (splitlines output) of
        Some e \<Rightarrow> e
      | None \<Rightarrow>
          if strip output \<noteq> [] then take 120 (last (splitlines (strip output)))
          else ''Unknown error'')"

subsection \<open>\<open>InstallWorker.run\<close>\<close>






definition em_dash :: string where
  "em_dash = [CHR 0xE2, CHR 0x80, CHR 0x94]"







fun searched_indices :: "match_event list \<Rightarrow> nat list" where
  "searched_indices [] = []"
| "searched_indices (SearchWinget idx nm # es) = idx # searched_indices es"
| "searched_indices (e # es) = searched_indices es"

fun progress_count :: "match_event list \<Rightarrow> nat" where
  "progress_count [] = 0"
| "progress_count (Progress k t # es) = Suc (progress_count es)"
| "progress_count (e # es) = progress_count es"


section \<open>Export and import\<close>

subsection \<open>JSON values and \<open>AppRecord.to_dict\<close>, \<open>AppRecord.from_dict\<close>\<close>

text \<open>
  The Python values that \<open>json.load\<close> builds.  A \<open>dict\<close> is the list of its items in
  order, looked up with \<open>map_of\<close>; a key occurs once in it, as in a Python \<open>dict\<close>.
  A \<open>float\<close> is kept as its literal.
\<close>

datatype pyval =
    PNone
  | PBool bool
  | PInt int
  | PFloat string
  | PStr string
  | PList "pyval list"
  | PDict "(string \<times> pyval) list"

fun type_name :: "pyval \<Rightarrow> string" where
  "type_name PNone = ''NoneType''"
| "type_name (PBool b) = ''bool''"
| "type_name (PInt i) = ''int''"
| "type_name (PFloat f) = ''float''"
| "type_name (PStr s) = ''str''"
| "type_name (PList xs) = ''list''"
| "type_name (PDict kvs) = ''dict''"

text \<open>The keys of \<open>AppRecord.__dataclass_fields__\<close>, and \<open>asdict\<close> on a record.\<close>

definition dataclass_fields :: "string list" where
  "dataclass_fields =
     [''name'', ''publisher'', ''version'', ''uninstall_string'', ''install_location'',
      ''source'', ''winget_id'', ''winget_status'', ''install_status'', ''install_error'']"

definition to_dict :: "pyval AppRecord \<Rightarrow> pyval" where
  "to_dict a =
     PDict [(''name'', name a), (''publisher'', publisher a), (''version'', version a),
            (''uninstall_string'', uninstall_string a),
            (''install_location'', install_location a), (''source'', source a),
            (''winget_id'', winget_id a), (''winget_status'', winget_status a),
            (''install_status'', install_status a), (''install_error'', install_error a)]"

text \<open>
  \<open>from_dict\<close>: \<open>d.items()\<close> needs a \<open>dict\<close>; the comprehension keeps the items whose
  key is a field; \<open>AppRecord(**kw)\<close> takes each field from \<open>kw\<close> or, for every field but
  \<open>name\<close>, its default from the class, and raises \<open>TypeError\<close> when \<open>name\<close> is missing.
  The values are stored as they are.
\<close>

definition kwarg :: "(string \<times> pyval) list \<Rightarrow> string \<Rightarrow> pyval \<Rightarrow> pyval" where
  "kwarg kw k dflt = (case map_of kw k of None \<Rightarrow> dflt | Some v \<Rightarrow> v)"

definition from_dict :: "pyval \<Rightarrow> exn + pyval AppRecord" where
  "from_dict d =
     (case d of
        PDict items \<Rightarrow>
          (let kw = filter (\<lambda>(k, v). k \<in> set dataclass_fields) items in
           case map_of kw ''name'' of
             None \<Rightarrow> Inl (TypeError_missing_argument ''name'')
           | Some n \<Rightarrow>
               Inr \<lparr>name = n,
                    publisher = kwarg kw ''publisher'' (PStr ''''),
                    version = kwarg kw ''version'' (PStr ''''),
                    uninstall_string = kwarg kw ''uninstall_string'' (PStr ''''),
                    install_location = kwarg kw ''install_location'' (PStr ''''),
                    source = kwarg kw ''source'' (PStr ''''),
                    winget_id = kwarg kw ''winget_id'' (PStr ''''),
                    winget_status = kwarg kw ''winget_status'' (PStr ''unknown''),
                    install_status = kwarg kw ''install_status'' (PStr ''''),
                    install_error = kwarg kw ''install_error'' (PStr '''')\<rparr>)
      | _ \<Rightarrow> Inl (AttributeError (type_name d) ''items''))"

text \<open>A record whose fields are strings, as the annotations say, seen as a record of Python
  values.\<close>

definition boxed :: "string AppRecord \<Rightarrow> pyval AppRecord" where
  "boxed a =
     \<lparr>name = PStr (name a), publisher = PStr (publisher a), version = PStr (version a),
      uninstall_string = PStr (uninstall_string a),
      install_location = PStr (install_location a), source = PStr (source a),
      winget_id = PStr (winget_id a), winget_status = PStr (winget_status a),
      install_status = PStr (install_status a), install_error = PStr (install_error a)\<rparr>"

subsection \<open>\<open>export_template\<close> and \<open>import_template\<close>\<close>

text \<open>
  The file system, as far as the two functions see it.  \<open>load_json w p\<close> is what
  \<open>open(p, "r", encoding="utf-8")\<close> followed by \<open>json.load\<close> yields: the value of the
  document, or the exception raised on the way.  \<open>open_for_writing w p\<close> is the exception
  that \<open>open(p, "w", encoding="utf-8")\<close> raises, if it raises.  The text of a JSON file
  is not modelled: \<open>json.dump\<close> of a value of type \<open>pyval\<close> writes a text from which
  \<open>json.load\<close> builds that value again, so after \<open>export_template\<close> the file holds the
  value \<open>data\<close>.  The argument \<open>now\<close> is \<open>datetime.datetime.now().isoformat()\<close>.
\<close>

record world =
  load_json :: "string \<Rightarrow> exn + pyval"
  open_for_writing :: "string \<Rightarrow> exn option"

definition APP_VERSION :: string where
  "APP_VERSION = ''1.0.0''"

definition export_template ::
  "pyval AppRecord list \<Rightarrow> string \<Rightarrow> string \<Rightarrow> world \<Rightarrow> exn + world" where
  "export_template apps filepath now w =
     (let data = PDict [(''appvault_version'', PStr APP_VERSION),
                        (''exported_at'', PStr now),
                        (''apps'', PList (map to_dict apps))]
      in case open_for_writing w filepath of
           Some e \<Rightarrow> Inl e
         | None \<Rightarrow> Inr (w\<lparr>load_json := (load_json w)(filepath := Inr data)\<rparr>))"

text \<open>
  \<open>data.get("apps", [])\<close> needs a \<open>dict\<close>.  The comprehension iterates over the value
  found: a list gives its elements, a string its characters, a \<open>dict\<close> its keys, and
  nothing else can be iterated.  \<open>from_dicts\<close> is the comprehension: it stops at the first
  element on which \<open>from_dict\<close> raises.
\<close>

definition data_get_apps :: "pyval \<Rightarrow> exn + pyval" where
  "data_get_apps data =
     (case data of
        PDict items \<Rightarrow> Inr (case map_of items ''apps'' of None \<Rightarrow> PList [] | Some v \<Rightarrow> v)
      | _ \<Rightarrow> Inl (AttributeError (type_name data) ''get''))"

definition iterate :: "pyval \<Rightarrow> exn + pyval list" where
  "iterate v =
     (case v of
        PList xs \<Rightarrow> Inr xs
      | PStr s \<Rightarrow> Inr (map (\<lambda>c. PStr [c]) s)
      | PDict items \<Rightarrow> Inr (map (\<lambda>(k, x). PStr k) items)
      | _ \<Rightarrow> Inl (TypeError_not_iterable (type_name v)))"

fun from_dicts :: "pyval list \<Rightarrow> exn + pyval AppRecord list" where
  "from_dicts [] = Inr []"
| "from_dicts (d # ds) =
     (case from_dict d of
        Inl e \<Rightarrow> Inl e
      | Inr a \<Rightarrow> (case from_dicts ds of Inl e \<Rightarrow> Inl e | Inr as \<Rightarrow> Inr (a # as)))"

text \<open>The body of the loop \<open>for a in apps\<close>.\<close>

definition reset_install :: "pyval AppRecord \<Rightarrow> pyval AppRecord" where
  "reset_install a = a\<lparr>install_status := PStr '''', install_error := PStr ''''\<rparr>"

text \<open>
  \<open>import_body\<close> is the block under \<open>try\<close>, \<open>import_template\<close> adds the handler
  \<open>except Exception as e: return [], str(e)\<close>.  The function gets the path and the file
  system and gives its result: it has no other argument that it could change.
\<close>

definition import_body :: "world \<Rightarrow> string \<Rightarrow> exn + pyval AppRecord list" where
  "import_body w filepath =
     (case load_json w filepath of
        Inl e \<Rightarrow> Inl e
      | Inr data \<Rightarrow>
          (case data_get_apps data of
             Inl e \<Rightarrow> Inl e
           | Inr v \<Rightarrow>
               (case iterate v of
                  Inl e \<Rightarrow> Inl e
                | Inr ds \<Rightarrow>
                    (case from_dicts ds of
                       Inl e \<Rightarrow> Inl e
                     | Inr apps \<Rightarrow> Inr (map reset_install apps)))))"

definition import_template :: "world \<Rightarrow> string \<Rightarrow> pyval AppRecord list \<times> string" where
  "import_template w filepath =
     (case import_body w filepath of
        Inr apps \<Rightarrow> (apps, '''')
      | Inl e \<Rightarrow> ([], str_exn e))"

text \<open>
  For the statements: an element of \<open>apps\<close> on which \<open>from_dict\<close> raises (it is not an
  object, or it is an object without the key \<open>name\<close>); the record that the import builds
  from the items of an entry, each field looked up among all the items, with the defaults of
  the class and the two install fields reset; and a file system in which every path holds
  the same document, or fails to load with the same exception.
\<close>

definition malformed_entry :: "pyval \<Rightarrow> bool" where
  "malformed_entry d =
     (case d of PDict items \<Rightarrow> ''name'' \<notin> set (map fst items) | _ \<Rightarrow> True)"

definition entry_record :: "(string \<times> pyval) list \<Rightarrow> pyval AppRecord" where
  "entry_record items =
     \<lparr>name = kwarg items ''name'' PNone,
      publisher = kwarg items ''publisher'' (PStr ''''),
      version = kwarg items ''version'' (PStr ''''),
      uninstall_string = kwarg items ''uninstall_string'' (PStr ''''),
      install_location = kwarg items ''install_location'' (PStr ''''),
      source = kwarg items ''source'' (PStr ''''),
      winget_id = kwarg items ''winget_id'' (PStr ''''),
      winget_status = kwarg items ''winget_status'' (PStr ''unknown''),
      install_status = PStr '''',
      install_error = PStr ''''\<rparr>"

definition world_holding :: "pyval \<Rightarrow> world" where
  "world_holding data = \<lparr>load_json = (\<lambda>p. Inr data), open_for_writing = (\<lambda>p. None)\<rparr>"


subsection \<open>\<open>export_ps1\<close>\<close>

text \<open>
  The function reads the clock: the argument \<open>now\<close> is
  \<open>datetime.datetime.now().strftime("%Y-%m-%d %H:%M")\<close>.  It writes the lines, joined by
  line feeds, to the file at \<open>filepath\<close> and returns the two counts: the result here is the
  pair of what is written (the path and the text) and what is returned.  A failing \<open>open\<close>
  raises to the caller and is not modelled.  The characters outside ASCII in the script are
  written as their UTF-8 bytes; \<open>box_rule n\<close> is a run of \<open>n\<close> box-drawing characters.
\<close>

definition newline :: string where
  "newline = [CHR 0x0A]"

definition box_rule :: "nat \<Rightarrow> string" where
  "box_rule n = concat (replicate n [CHR 0xE2, CHR 0x94, CHR 0x80])"

text \<open>What the two \<open>for\<close> loops append for one entry.\<close>

definition winget_entry :: "string AppRecord \<Rightarrow> string list" where
  "winget_entry a =
     [''# '' @ name a
        @ (if publisher a \<noteq> [] then ''  |  '' @ publisher a else [])
        @ (if version a \<noteq> [] then ''  |  v'' @ version a else []),
      ''winget install --id '' @ winget_id a @ '' --silent ''
        @ ''--accept-package-agreements --accept-source-agreements'',
      '''']"

definition manual_entry :: "string AppRecord \<Rightarrow> string list" where
  "manual_entry a =
     [''# '' @ name a]
     @ (if publisher a \<noteq> [] then [''#   Publisher : '' @ publisher a] else [])
     @ (if version a \<noteq> [] then [''#   Version   : '' @ version a] else [])
     @ ['''']"

definition ps1_lines :: "string AppRecord list \<Rightarrow> string \<Rightarrow> string list" where
  "ps1_lines apps now =
     (let winget_apps = filter (\<lambda>a. winget_id a \<noteq> []) apps;
          manual_apps = filter (\<lambda>a. \<not> winget_id a \<noteq> []) apps
      in [''# '' @ replicate 60 (CHR ''=''),
          ''#  AppVault '' @ em_dash @ '' Auto-generated Install Script'',
          ''#  Generated : '' @ now,
          ''#  Apps      : '' @ show_nat (length winget_apps) @ '' via Winget  |  ''
            @ show_nat (length manual_apps) @ '' manual'',
          ''# '' @ replicate 60 (CHR ''=''),
          '''',
          ''# Requires winget (App Installer) '' @ em_dash @ '' https://aka.ms/getwinget'',
          '''',
          ''Write-Host '' @ quoted ''=== AppVault Install Script ===''
            @ '' -ForegroundColor Cyan'',
          ''Write-Host '' @ quoted [],
          '''']
         @ (if winget_apps \<noteq> [] then
              [''# '' @ box_rule 2 @ '' Winget Installs '' @ box_rule 41, '''']
              @ concat (map winget_entry winget_apps)
            else [])
         @ (if manual_apps \<noteq> [] then
              [''# '' @ box_rule 2 @ '' Manual Installs Required '' @ box_rule 32,
               ''# The following apps have no Winget package '' @ em_dash
                 @ '' install manually:'',
               '''']
              @ concat (map manual_entry manual_apps)
            else [])
         @ [''Write-Host '' @ quoted [] @ '' '',
            ''Write-Host '' @ quoted ''Done! Check output above for any errors.''
              @ '' -ForegroundColor Green''])"

definition export_ps1 ::
  "string AppRecord list \<Rightarrow> string \<Rightarrow> string \<Rightarrow> (string \<times> string) \<times> (nat \<times> nat)" where
  "export_ps1 apps filepath now =
     (let winget_apps = filter (\<lambda>a. winget_id a \<noteq> []) apps;
          manual_apps = filter (\<lambda>a. \<not> winget_id a \<noteq> []) apps
      in ((filepath, join newline (ps1_lines apps now)),
          (length winget_apps, length manual_apps)))"


section \<open>Sample inputs\<close>

text \<open>An entry with a name, a package identifier and a match status; an installer
  environment in which the flag is read as set once \<open>k\<close> entries are done and every
  installation succeeds; a matcher environment of the same kind in which every query prints
  the same text.\<close>

definition sample_entry :: "string \<Rightarrow> string \<Rightarrow> string \<Rightarrow> string AppRecord" where
  "sample_entry nm wid st =
     \<lparr>name = nm, publisher = ''Vendor'', version = ''1.2'', uninstall_string = '''',
      install_location = '''', source = ''HKCU'', winget_id = wid, winget_status = st,
      install_status = ''failed'', install_error = ''timeout''\<rparr>"




section \<open>Properties of the scanner\<close>

lemma dedup_loop_first_seen:
  "dedup_loop seen unique apps = unique @ first_seen seen apps"
  by (induction apps arbitrary: seen unique) (simp_all add: Let_def)

lemma first_seen_keys:
  "(\<lambda>a. lower (name a)) ` set (first_seen seen apps) = (\<lambda>a. lower (name a)) ` set apps - seen"
  by (induction apps arbitrary: seen) auto

lemma first_seen_distinct:
  "distinct (map (\<lambda>a. lower (name a)) (first_seen seen apps))"
proof (induction apps arbitrary: seen)
  case Nil
  show ?case by simp
next
  case (Cons a apps)
  have "lower (name a)
          \<notin> (\<lambda>a. lower (name a)) ` set (first_seen (insert (lower (name a)) seen) apps)"
    by (simp add: first_seen_keys)
  with Cons show ?case by simp
qed

lemma first_seen_find:
  "a \<in> set (first_seen seen apps)
     \<Longrightarrow> find (\<lambda>b. lower (name b) = lower (name a)) apps = Some a"
proof (induction apps arbitrary: seen)
  case Nil
  then show ?case by simp
next
  case (Cons b apps)
  let ?k = "\<lambda>a::string AppRecord. lower (name a)"
  from Cons.prems
  have mem: "a = b \<or> a \<in> set (first_seen (insert (?k b) seen) apps)
                 \<or> (?k b \<in> seen \<and> a \<in> set (first_seen seen apps))"
    by (auto split: if_splits)
  show ?case
  proof (cases "?k b = ?k a")
    case True
    have "?k a \<notin> ?k ` set (first_seen (insert (?k b) seen) apps)"
      using True by (simp add: first_seen_keys)
    moreover have "?k b \<in> seen \<Longrightarrow> ?k a \<notin> ?k ` set (first_seen seen apps)"
      using True by (simp add: first_seen_keys)
    ultimately have "a = b" using mem by blast
    then show ?thesis by simp
  next
    case False
    with mem Cons.IH show ?thesis by auto
  qed
qed

text \<open>
  Claim C4.  Whatever the three registry locations yield, the list returned by
  \<open>scan_installed_apps\<close> has no two records with the same lower-cased name, is sorted
  ascending by lower-cased name, holds for each of its records the first record of that
  lower-cased name in the order HKLM 64-bit, HKLM 32-bit, HKCU, and has one record for
  every lower-cased name that was read.
\<close>

theorem scan_installed_apps_unique_first_sorted:
  "distinct (map (\<lambda>a. lower (name a)) (scan_installed_apps hklm64 hklm32 hkcu))
   \<and> sorted (map (\<lambda>a. lower (name a)) (scan_installed_apps hklm64 hklm32 hkcu))
   \<and> (\<forall>a \<in> set (scan_installed_apps hklm64 hklm32 hkcu).
        find (\<lambda>b. lower (name b) = lower (name a)) (hklm64 @ hklm32 @ hkcu) = Some a)
   \<and> (\<lambda>a. lower (name a)) ` set (scan_installed_apps hklm64 hklm32 hkcu)
       = (\<lambda>a. lower (name a)) ` set (hklm64 @ hklm32 @ hkcu)"
proof -
  let ?k = "\<lambda>a::string AppRecord. lower (name a)"
  let ?apps = "hklm64 @ hklm32 @ hkcu"
  let ?u = "first_seen {} ?apps"
  let ?r = "scan_installed_apps hklm64 hklm32 hkcu"
  have r: "?r = sort_key ?k ?u"
    by (simp add: scan_installed_apps_def dedup_loop_first_seen)
  have s: "set ?r = set ?u"
    by (simp add: r)
  have "distinct (map ?k ?u)"
    by (rule first_seen_distinct)
  then have "distinct ?u" and "inj_on ?k (set ?u)"
    by (simp_all add: distinct_map)
  then have "distinct (map ?k ?r)"
    by (simp add: distinct_map r)
  moreover have "sorted (map ?k ?r)"
    by (simp add: r)
  moreover have "\<forall>a \<in> set ?r. find (\<lambda>b. ?k b = ?k a) ?apps = Some a"
    using first_seen_find s by blast
  moreover have "?k ` set ?r = ?k ` set ?apps"
    by (simp only: s first_seen_keys Diff_empty)
  ultimately show ?thesis by blast
qed

theorem scan_installed_apps_unique_first_sorted_witness:
  "scanned ''Zip'' ''Igor'' ''HKLM x64''
     \<in> set (scan_installed_apps
              [scanned ''Zip'' ''Igor'' ''HKLM x64''] [scanned ''ZIP'' ''Other'' ''HKLM x86'']
              [scanned ''Abc'' '''' ''HKCU''])
   \<and> find (\<lambda>b. lower (name b) = lower (name (scanned ''Zip'' ''Igor'' ''HKLM x64'')))
        ([scanned ''Zip'' ''Igor'' ''HKLM x64''] @ [scanned ''ZIP'' ''Other'' ''HKLM x86'']
           @ [scanned ''Abc'' '''' ''HKCU''])
       = Some (scanned ''Zip'' ''Igor'' ''HKLM x64'')"
proof -
  have m: "scanned ''Zip'' ''Igor'' ''HKLM x64''
             \<in> set (scan_installed_apps
                      [scanned ''Zip'' ''Igor'' ''HKLM x64'']
                      [scanned ''ZIP'' ''Other'' ''HKLM x86''] [scanned ''Abc'' '''' ''HKCU''])"
    by code_simp
  from scan_installed_apps_unique_first_sorted
         [of "[scanned ''Zip'' ''Igor'' ''HKLM x64'']" "[scanned ''ZIP'' ''Other'' ''HKLM x86'']"
             "[scanned ''Abc'' '''' ''HKCU'']"]
  have "\<forall>a \<in> set (scan_installed_apps
                      [scanned ''Zip'' ''Igor'' ''HKLM x64'']
                      [scanned ''ZIP'' ''Other'' ''HKLM x86''] [scanned ''Abc'' '''' ''HKCU'']).
          find (\<lambda>b. lower (name b) = lower (name a))
            ([scanned ''Zip'' ''Igor'' ''HKLM x64''] @ [scanned ''ZIP'' ''Other'' ''HKLM x86'']
               @ [scanned ''Abc'' '''' ''HKCU''])
          = Some a"
    by blast
  with m show ?thesis by blast
qed

section \<open>Properties of the built-in filter\<close>

text \<open>
  Claim C5, as the code has it.  \<open>_is_builtin\<close> excludes an entry whose lower-cased
  publisher is one of the vendor labels and whose lower-cased name contains none of the
  allowed phrases.  An entry whose name contains an allowed phrase is never excluded on
  account of its publisher: it is excluded exactly when its name matches one of the name
  patterns, which are tried first.  Altogether an entry is excluded exactly when its name
  matches a pattern, or its publisher is a vendor label and its name is not allowed.
  Publisher "Microsoft Corporation" with name "Microsoft Teams" is kept, with name
  "Microsoft Visual C++ 2015 Redistributable" it is excluded.
\<close>

theorem is_builtin_rules:
  "(lower pub \<in> EXCLUDE_PUBLISHERS \<and> \<not> name_allowed (lower nm) \<longrightarrow> is_builtin nm pub)
   \<and> (name_allowed (lower nm) \<longrightarrow> is_builtin nm pub = name_matches_pattern (lower nm))
   \<and> is_builtin nm pub =
       (name_matches_pattern (lower nm)
        \<or> (lower pub \<in> EXCLUDE_PUBLISHERS \<and> \<not> name_allowed (lower nm)))
   \<and> \<not> is_builtin ''Microsoft Teams'' ''Microsoft Corporation''
   \<and> is_builtin ''Microsoft Visual C++ 2015 Redistributable'' ''Microsoft Corporation''"
proof -
  have "\<not> is_builtin ''Microsoft Teams'' ''Microsoft Corporation''"
    by code_simp
  moreover have "is_builtin ''Microsoft Visual C++ 2015 Redistributable'' ''Microsoft Corporation''"
    by code_simp
  moreover have "is_builtin nm pub =
       (name_matches_pattern (lower nm)
        \<or> (lower pub \<in> EXCLUDE_PUBLISHERS \<and> \<not> name_allowed (lower nm)))"
    by (simp add: is_builtin_def Let_def)
  ultimately show ?thesis
    by blast
qed

theorem is_builtin_rules_witness:
  "lower ''Microsoft Corporation'' \<in> EXCLUDE_PUBLISHERS
   \<and> \<not> name_allowed (lower ''Notepad'') \<and> is_builtin ''Notepad'' ''Microsoft Corporation''
   \<and> name_allowed (lower ''Microsoft Teams'')
   \<and> is_builtin ''Microsoft Teams'' ''Microsoft Corporation''
        = name_matches_pattern (lower ''Microsoft Teams'')"
proof -
  have p: "lower ''Microsoft Corporation'' \<in> EXCLUDE_PUBLISHERS"
    by code_simp
  have n: "\<not> name_allowed (lower ''Notepad'')"
    by code_simp
  have t: "name_allowed (lower ''Microsoft Teams'')"
    by code_simp
  from is_builtin_rules[of "''Microsoft Corporation''" "''Notepad''"] p n
  have "is_builtin ''Notepad'' ''Microsoft Corporation''" by blast
  moreover from is_builtin_rules[of "''Microsoft Corporation''" "''Microsoft Teams''"] t
  have "is_builtin ''Microsoft Teams'' ''Microsoft Corporation''
          = name_matches_pattern (lower ''Microsoft Teams'')" by blast
  ultimately show ?thesis using p n t by blast
qed

text \<open>
  Claim C5 as it is worded fails: "Security Update for Microsoft Office 2010" of
  "Microsoft Corporation" contains the allowed phrase "microsoft office" and has a vendor
  publisher, and it is excluded, by the pattern \<open>security update\<close>.
\<close>

theorem is_builtin_allowed_name_excluded:
  "lower ''Microsoft Corporation'' \<in> EXCLUDE_PUBLISHERS
   \<and> name_allowed (lower ''Security Update for Microsoft Office 2010'')
   \<and> is_builtin ''Security Update for Microsoft Office 2010'' ''Microsoft Corporation''"
  by code_simp


section \<open>Properties of the matcher\<close>

lemma first_candidate_is_candidate:
  "first_candidate i ps = Some (k, p) \<Longrightarrow> is_candidate p"
  by (induction ps arbitrary: i) (auto split: if_splits)

lemma is_candidate_nonempty: "is_candidate p \<Longrightarrow> p \<noteq> []"
  by (auto simp: is_candidate_def)

lemma row_candidate_nonempty:
  "row_candidate q line = Some (p, s) \<Longrightarrow> p \<noteq> []"
  by (auto simp: row_candidate_def Let_def split: if_splits
           dest!: first_candidate_is_candidate is_candidate_nonempty)

lemma consider_line_keep:
  "consider_line q best line =
     (case row_candidate q line of None \<Rightarrow> best | Some c \<Rightarrow> keep best c)"
  by (auto simp: consider_line_def row_candidate_def keep_def Let_def split: option.splits)

lemma foldl_consider_line:
  "foldl (consider_line q) best lines = foldl keep best (List.map_filter (row_candidate q) lines)"
  by (induction lines arbitrary: best)
     (simp_all add: consider_line_keep List.map_filter_simps split: option.splits)

lemma foldl_keep_best:
  assumes "\<forall>c \<in> set cs. fst c \<noteq> []" and "cs \<noteq> []"
  shows "\<exists>k < length cs. foldl keep ([], 0) cs = cs ! k
           \<and> (\<forall>j < length cs. snd (cs ! j) \<le> snd (cs ! k))
           \<and> (\<forall>j < k. snd (cs ! j) < snd (cs ! k))"
  using assms
proof (induction cs rule: rev_induct)
  case Nil
  then show ?case by simp
next
  case (snoc x xs)
  show ?case
  proof (cases "xs = []")
    case True
    then show ?thesis by (auto simp: keep_def)
  next
    case False
    with snoc obtain k where k: "k < length xs" "foldl keep ([], 0) xs = xs ! k"
      "\<forall>j < length xs. snd (xs ! j) \<le> snd (xs ! k)" "\<forall>j < k. snd (xs ! j) < snd (xs ! k)"
      by auto
    from snoc.prems k(1) have ne: "fst (xs ! k) \<noteq> []" by simp
    show ?thesis
    proof (cases "snd x > snd (xs ! k)")
      case True
      then have "foldl keep ([], 0) (xs @ [x]) = (xs @ [x]) ! length xs"
        by (simp add: k(2) keep_def)
      moreover have lt: "\<forall>j < length xs. snd ((xs @ [x]) ! j) < snd ((xs @ [x]) ! length xs)"
      proof (intro allI impI)
        fix j assume j: "j < length xs"
        with k(3) have "snd (xs ! j) \<le> snd (xs ! k)" by blast
        with True have "snd (xs ! j) < snd x" by simp
        with j show "snd ((xs @ [x]) ! j) < snd ((xs @ [x]) ! length xs)"
          by (simp add: nth_append)
      qed
      moreover have "\<forall>j < length (xs @ [x]). snd ((xs @ [x]) ! j) \<le> snd ((xs @ [x]) ! length xs)"
      proof (intro allI impI)
        fix j assume "j < length (xs @ [x])"
        then have "j < length xs \<or> j = length xs" by auto
        with lt show "snd ((xs @ [x]) ! j) \<le> snd ((xs @ [x]) ! length xs)"
          by (auto simp: less_imp_le)
      qed
      ultimately show ?thesis
        by (intro exI[of _ "length xs"]) simp
    next
      case False
      then have "foldl keep ([], 0) (xs @ [x]) = (xs @ [x]) ! k"
        using k(1) ne by (simp add: k(2) keep_def nth_append)
      moreover have "\<forall>j < length (xs @ [x]). snd ((xs @ [x]) ! j) \<le> snd ((xs @ [x]) ! k)"
      proof (intro allI impI)
        fix j assume "j < length (xs @ [x])"
        then have "j < length xs \<or> j = length xs" by auto
        then show "snd ((xs @ [x]) ! j) \<le> snd ((xs @ [x]) ! k)"
        proof
          assume "j < length xs"
          with k(1,3) show ?thesis by (simp add: nth_append)
        next
          assume "j = length xs"
          with False k(1) show ?thesis by (simp add: nth_append)
        qed
      qed
      moreover have "\<forall>j < k. snd ((xs @ [x]) ! j) < snd ((xs @ [x]) ! k)"
        using k(1,4) by (auto simp: nth_append)
      ultimately show ?thesis
        using k(1) by (intro exI[of _ k]) simp
    qed
  qed
qed

lemma row_candidates_nonempty_ids: "\<forall>c \<in> set (row_candidates output nm). fst c \<noteq> []"
  by (auto simp: row_candidates_def List.map_filter_def dest: row_candidate_nonempty)

lemma parse_winget_id_fold:
  "parse_winget_id output nm = fst (foldl keep ([], 0) (row_candidates output nm))"
  by (simp add: parse_winget_id_def row_candidates_def foldl_consider_line Let_def)

lemma parse_winget_id_empty_iff:
  "parse_winget_id output nm = [] \<longleftrightarrow> row_candidates output nm = []"
proof (cases "row_candidates output nm = []")
  case True
  then show ?thesis by (simp add: parse_winget_id_fold)
next
  case False
  from foldl_keep_best[OF row_candidates_nonempty_ids False]
  obtain k where "k < length (row_candidates output nm)"
     "foldl keep ([], 0) (row_candidates output nm) = row_candidates output nm ! k" by blast
  then show ?thesis using row_candidates_nonempty_ids[of "output" nm] False
    by (simp add: parse_winget_id_fold)
qed

text \<open>
  Claim C2, as the code has it.  Only rows of at least two tokens are looked at, and in
  such a row only the first token that contains a dot, is longer than 3 characters and does
  not begin with \<open>-\<close>; its score is the number of words of the lower-cased name that occur
  in the lower-cased row text before it.  Among these candidates, one per row at most, the
  parser returns the one of highest score, the first of them on a tie (every earlier
  candidate scores strictly less, no candidate scores more); a first candidate is kept even
  with score zero, so the result is empty exactly when no row has a candidate.
  \<open>_search_winget\<close> returns \<open>found\<close> with the result of the exact query when its output
  has a candidate, else of the query on the first word of the name, and the empty identifier
  with \<open>not_found\<close> when neither has.
\<close>

theorem parse_winget_id_best_row_candidate:
  "(row_candidates output nm = [] \<longrightarrow> parse_winget_id output nm = [])
   \<and> (row_candidates output nm \<noteq> [] \<longrightarrow>
        (\<exists>k < length (row_candidates output nm).
            parse_winget_id output nm = fst (row_candidates output nm ! k)
          \<and> parse_winget_id output nm \<noteq> []
          \<and> (\<forall>j < length (row_candidates output nm).
                snd (row_candidates output nm ! j) \<le> snd (row_candidates output nm ! k))
          \<and> (\<forall>j < k. snd (row_candidates output nm ! j) < snd (row_candidates output nm ! k))))
   \<and> search_winget run nm =
       (let exact = run [''winget'', ''search'', ''--exact'', ''--name'', nm,
                         ''--accept-source-agreements''];
            fuzzy = run [''winget'', ''search'', ''--name'',
                         (case split_str nm of [] \<Rightarrow> nm | w # ws \<Rightarrow> w),
                         ''--accept-source-agreements'']
        in if row_candidates exact nm \<noteq> [] then (parse_winget_id exact nm, ''found'')
           else if row_candidates fuzzy nm \<noteq> [] then (parse_winget_id fuzzy nm, ''found'')
           else ([], ''not_found''))"
proof -
  have a: "row_candidates output nm = [] \<longrightarrow> parse_winget_id output nm = []"
    by (simp add: parse_winget_id_empty_iff)
  have b: "row_candidates output nm \<noteq> [] \<longrightarrow>
        (\<exists>k < length (row_candidates output nm).
            parse_winget_id output nm = fst (row_candidates output nm ! k)
          \<and> parse_winget_id output nm \<noteq> []
          \<and> (\<forall>j < length (row_candidates output nm).
                snd (row_candidates output nm ! j) \<le> snd (row_candidates output nm ! k))
          \<and> (\<forall>j < k. snd (row_candidates output nm ! j) < snd (row_candidates output nm ! k)))"
  proof
    assume ne: "row_candidates output nm \<noteq> []"
    from foldl_keep_best[OF row_candidates_nonempty_ids ne]
    obtain k where k: "k < length (row_candidates output nm)"
      "foldl keep ([], 0) (row_candidates output nm) = row_candidates output nm ! k"
      "\<forall>j < length (row_candidates output nm).
          snd (row_candidates output nm ! j) \<le> snd (row_candidates output nm ! k)"
      "\<forall>j < k. snd (row_candidates output nm ! j) < snd (row_candidates output nm ! k)"
      by blast
    have "parse_winget_id output nm = fst (row_candidates output nm ! k)"
      by (simp add: parse_winget_id_fold k(2))
    moreover have "parse_winget_id output nm \<noteq> []"
      using ne by (simp add: parse_winget_id_empty_iff)
    ultimately show "\<exists>k < length (row_candidates output nm).
            parse_winget_id output nm = fst (row_candidates output nm ! k)
          \<and> parse_winget_id output nm \<noteq> []
          \<and> (\<forall>j < length (row_candidates output nm).
                snd (row_candidates output nm ! j) \<le> snd (row_candidates output nm ! k))
          \<and> (\<forall>j < k. snd (row_candidates output nm ! j) < snd (row_candidates output nm ! k))"
      using k(1,3,4) by blast
  qed
  have c: "search_winget run nm =
       (let exact = run [''winget'', ''search'', ''--exact'', ''--name'', nm,
                         ''--accept-source-agreements''];
            fuzzy = run [''winget'', ''search'', ''--name'',
                         (case split_str nm of [] \<Rightarrow> nm | w # ws \<Rightarrow> w),
                         ''--accept-source-agreements'']
        in if row_candidates exact nm \<noteq> [] then (parse_winget_id exact nm, ''found'')
           else if row_candidates fuzzy nm \<noteq> [] then (parse_winget_id fuzzy nm, ''found'')
           else ([], ''not_found''))"
    by (simp add: search_winget_def Let_def parse_winget_id_empty_iff)
  from a b c show ?thesis by blast
qed

theorem parse_winget_id_best_row_candidate_witness:
  "row_candidates ''Name Id Version Source'' ''Foo'' = []
   \<and> parse_winget_id ''Name Id Version Source'' ''Foo'' = []
   \<and> row_candidates ''Foo Bar Vendor.FooBar 1.0.2 winget'' ''Foo Bar'' \<noteq> []
   \<and> (\<exists>k < length (row_candidates ''Foo Bar Vendor.FooBar 1.0.2 winget'' ''Foo Bar'').
         parse_winget_id ''Foo Bar Vendor.FooBar 1.0.2 winget'' ''Foo Bar''
           = fst (row_candidates ''Foo Bar Vendor.FooBar 1.0.2 winget'' ''Foo Bar'' ! k))"
proof -
  have e: "row_candidates ''Name Id Version Source'' ''Foo'' = []"
    by code_simp
  have n: "row_candidates ''Foo Bar Vendor.FooBar 1.0.2 winget'' ''Foo Bar'' \<noteq> []"
    by code_simp
  from parse_winget_id_best_row_candidate [of "''Name Id Version Source''" "''Foo''" "\<lambda>args. []"] e
  have "parse_winget_id ''Name Id Version Source'' ''Foo'' = []"
    by blast
  moreover
  from parse_winget_id_best_row_candidate
         [of "''Foo Bar Vendor.FooBar 1.0.2 winget''" "''Foo Bar''" "\<lambda>args. []"] n
  have "\<exists>k < length (row_candidates ''Foo Bar Vendor.FooBar 1.0.2 winget'' ''Foo Bar'').
         parse_winget_id ''Foo Bar Vendor.FooBar 1.0.2 winget'' ''Foo Bar''
           = fst (row_candidates ''Foo Bar Vendor.FooBar 1.0.2 winget'' ''Foo Bar'' ! k)"
    by blast
  ultimately show ?thesis using e n by blast
qed

text \<open>
  Claim C2 as it is worded fails.  For the name "Paint.NET" and the row
  \<open>paint.net dotPDN.PaintDotNet 5.0.13 winget\<close> the parser keeps the token \<open>paint.net\<close>,
  whose score is 0 (no text precedes it), although the token \<open>dotPDN.PaintDotNet\<close> of the
  same row contains a dot, is longer than 3 characters, does not begin with \<open>-\<close>, and has
  score 1: the inner loop stops at the first token that passes the test.
\<close>

theorem parse_winget_id_keeps_first_token_of_row:
  "parse_winget_id ''paint.net dotPDN.PaintDotNet 5.0.13 winget'' ''Paint.NET'' = ''paint.net''
   \<and> split_str ''paint.net dotPDN.PaintDotNet 5.0.13 winget''
       = [''paint.net'', ''dotPDN.PaintDotNet'', ''5.0.13'', ''winget'']
   \<and> is_candidate ''dotPDN.PaintDotNet''
   \<and> row_score (lower ''Paint.NET'')
        [''paint.net'', ''dotPDN.PaintDotNet'', ''5.0.13'', ''winget''] 0 = 0
   \<and> row_score (lower ''Paint.NET'')
        [''paint.net'', ''dotPDN.PaintDotNet'', ''5.0.13'', ''winget''] 1 = 1"
  by code_simp


section \<open>Properties of the error extraction\<close>

lemma first_error_line_find:
  "first_error_line ls = map_option (\<lambda>l. take 120 (strip l)) (find has_keyword ls)"
  by (induction ls) simp_all

lemma split_lines_nonempty: "s \<noteq> [] \<or> cur \<noteq> [] \<Longrightarrow> split_lines cur s \<noteq> []"
  by (induction cur s rule: split_lines.induct) (auto split: list.splits)

lemma split_lines_last:
  "s \<noteq> [] \<Longrightarrow> \<not> is_linebreak (last s) \<Longrightarrow> last (split_lines cur s) \<noteq> []"
proof (induction cur s rule: split_lines.induct)
  case (1 cur)
  then show ?case by simp
next
  case (2 cur c cs)
  have lf: "is_linebreak (CHR 0x0A)"
    by (simp add: is_linebreak_def)
  show ?case
  proof (cases cs)
    case Nil
    with "2.prems" have "\<not> is_linebreak c" by simp
    moreover from this have "c \<noteq> CHR 0x0D" by (auto simp: is_linebreak_def)
    ultimately show ?thesis using Nil by simp
  next
    case (Cons d ds)
    from "2.prems" Cons have nb: "\<not> is_linebreak (last cs)" by simp
    have ne: "cs \<noteq> []" using Cons by simp
    have tail: "split_lines [] cs \<noteq> []" using ne by (simp add: split_lines_nonempty)
    show ?thesis
    proof (cases "c = CHR 0x0D")
      case True
      show ?thesis
      proof (cases "d = CHR 0x0A")
        case dlf: True
        with "2.prems" Cons lf have ds: "ds \<noteq> []" by auto
        with nb Cons have "\<not> is_linebreak (last ds)" by simp
        with "2.IH"(2)[OF True Cons dlf ds] have "last (split_lines [] ds) \<noteq> []" by simp
        moreover have "split_lines [] ds \<noteq> []" using ds by (simp add: split_lines_nonempty)
        ultimately show ?thesis using True Cons dlf by simp
      next
        case False
        from "2.IH"(3)[OF True Cons False ne nb] have "last (split_lines [] cs) \<noteq> []" .
        with tail show ?thesis using True Cons False by simp
      qed
    next
      case False
      show ?thesis
      proof (cases "is_linebreak c")
        case True
        from "2.IH"(4)[OF False True ne nb] have "last (split_lines [] cs) \<noteq> []" .
        with tail show ?thesis using False True by simp
      next
        case nbc: False
        from "2.IH"(5)[OF False nbc ne nb] show ?thesis using False nbc by simp
      qed
    qed
  qed
qed

lemma strip_last_not_space: "strip s \<noteq> [] \<Longrightarrow> \<not> isspace (last (strip s))"
proof -
  assume ne: "strip s \<noteq> []"
  let ?d = "dropWhile isspace (rev (dropWhile isspace s))"
  from ne have d: "?d \<noteq> []" by (simp add: strip_def)
  then have "\<not> isspace (hd ?d)" by (rule hd_dropWhile)
  moreover have "last (strip s) = hd ?d" using d by (simp add: strip_def last_rev)
  ultimately show ?thesis by simp
qed

lemma linebreak_is_space: "is_linebreak c \<Longrightarrow> isspace c"
  by (auto simp: is_linebreak_def isspace_def)

lemma last_line_of_stripped:
  assumes "strip output \<noteq> []"
  shows "splitlines (strip output) \<noteq> []" and "last (splitlines (strip output)) \<noteq> []"
proof -
  show "splitlines (strip output) \<noteq> []"
    using assms by (simp add: splitlines_def split_lines_nonempty)
  from strip_last_not_space[OF assms] have "\<not> is_linebreak (last (strip output))"
    using linebreak_is_space by blast
  with assms show "last (splitlines (strip output)) \<noteq> []"
    by (simp add: splitlines_def split_lines_last)
qed

text \<open>
  Claim C6, as the code has it.  The extracted message is the first output line that
  contains, lower-cased, one of "error", "failed", "no package", "not found", "0x", with the
  white space at its ends removed and then cut to 120 characters.  When no line contains a
  keyword, it is the last line of the output with the white space at the ends of the whole
  output removed (a line that is not empty), cut to 120 characters; when the output is white
  space only, it is "Unknown error".  It never has more than 120 characters.
\<close>

theorem extract_winget_error_cases:
  "(find has_keyword (splitlines output) = Some line \<longrightarrow>
       extract_winget_error output = take 120 (strip line))
   \<and> (find has_keyword (splitlines output) = None \<and> strip output \<noteq> [] \<longrightarrow>
       extract_winget_error output = take 120 (last (splitlines (strip output)))
       \<and> splitlines (strip output) \<noteq> [] \<and> last (splitlines (strip output)) \<noteq> [])
   \<and> (find has_keyword (splitlines output) = None \<and> strip output = [] \<longrightarrow>
       extract_winget_error output = ''Unknown error'')
   \<and> length (extract_winget_error output) \<le> 120"
proof -
  have a: "find has_keyword (splitlines output) = Some line \<longrightarrow>
       extract_winget_error output = take 120 (strip line)"
    by (simp add: extract_winget_error_def first_error_line_find)
  have b: "find has_keyword (splitlines output) = None \<and> strip output \<noteq> [] \<longrightarrow>
       extract_winget_error output = take 120 (last (splitlines (strip output)))
       \<and> splitlines (strip output) \<noteq> [] \<and> last (splitlines (strip output)) \<noteq> []"
    using last_line_of_stripped[of "output"]
    by (simp add: extract_winget_error_def first_error_line_find)
  have c: "find has_keyword (splitlines output) = None \<and> strip output = [] \<longrightarrow>
       extract_winget_error output = ''Unknown error''"
    by (simp add: extract_winget_error_def first_error_line_find)
  have d: "length (extract_winget_error output) \<le> 120"
    by (cases "find has_keyword (splitlines output)")
       (simp_all add: extract_winget_error_def first_error_line_find)
  from a b c d show ?thesis by blast
qed

theorem extract_winget_error_cases_witness:
  "find has_keyword (splitlines ''Installing  ERROR: hash mismatch '')
     = Some ''Installing  ERROR: hash mismatch ''
   \<and> extract_winget_error ''Installing  ERROR: hash mismatch ''
     = ''Installing  ERROR: hash mismatch''
   \<and> find has_keyword (splitlines '' exit code 5 '') = None \<and> strip '' exit code 5 '' \<noteq> []
   \<and> extract_winget_error '' exit code 5 '' = ''exit code 5''
   \<and> find has_keyword (splitlines ''  '') = None \<and> strip ''  '' = []
   \<and> extract_winget_error ''  '' = ''Unknown error''"
proof -
  have a: "find has_keyword (splitlines ''Installing  ERROR: hash mismatch '')
             = Some ''Installing  ERROR: hash mismatch ''"
    by code_simp
  have b: "find has_keyword (splitlines '' exit code 5 '') = None \<and> strip '' exit code 5 '' \<noteq> []"
    by code_simp
  have c: "find has_keyword (splitlines ''  '') = None \<and> strip ''  '' = []"
    by code_simp
  have sa: "take 120 (strip ''Installing  ERROR: hash mismatch '')
              = ''Installing  ERROR: hash mismatch''"
    by code_simp
  have sb: "take 120 (last (splitlines (strip '' exit code 5 ''))) = ''exit code 5''"
    by code_simp
  from extract_winget_error_cases
         [of "''Installing  ERROR: hash mismatch ''" "''Installing  ERROR: hash mismatch ''"] a sa
  have "extract_winget_error ''Installing  ERROR: hash mismatch ''
          = ''Installing  ERROR: hash mismatch''"
    by simp
  moreover from extract_winget_error_cases [of "'' exit code 5 ''" "[]"] b sb
  have "extract_winget_error '' exit code 5 '' = ''exit code 5''"
    by simp
  moreover from extract_winget_error_cases [of "''  ''" "[]"] c
  have "extract_winget_error ''  '' = ''Unknown error''"
    by blast
  ultimately show ?thesis using a b c by blast
qed

text \<open>
  Claim C6 as it is worded fails: the only line of the output \<open>"  error: x"\<close> contains a
  keyword, and the extracted message is not that line cut to 120 characters but the line
  without its leading blanks.
\<close>

theorem extract_winget_error_strips_line:
  "extract_winget_error ''  error: x'' = ''error: x''
   \<and> splitlines ''  error: x'' = [''  error: x'']
   \<and> has_keyword ''  error: x''
   \<and> take 120 ''  error: x'' \<noteq> extract_winget_error ''  error: x''"
  by code_simp


section \<open>Properties of the install worker and the match worker\<close>



lemma searched_indices_append:
  "searched_indices (xs @ ys) = searched_indices xs @ searched_indices ys"
  by (induction xs rule: searched_indices.induct) simp_all










lemma progress_count_append:
  "progress_count (xs @ ys) = progress_count xs + progress_count ys"
  by (induction xs rule: progress_count.induct) simp_all














section \<open>Properties of export and import\<close>

lemma str_exn_nonempty: "str_exn e \<noteq> []"
  by (cases e) (simp_all add: quoted_def)

lemma from_dict_to_dict: "from_dict (to_dict a) = Inr a"
  by (simp add: from_dict_def to_dict_def dataclass_fields_def kwarg_def)

lemma from_dicts_to_dicts: "from_dicts (map to_dict apps) = Inr apps"
  by (induction apps) (simp_all add: from_dict_to_dict)

lemma import_after_export:
  assumes "export_template apps filepath now w = Inr w'"
  shows "import_template w' filepath = (map reset_install apps, [])"
proof -
  from assms have l: "load_json w' filepath =
      Inr (PDict [(''appvault_version'', PStr APP_VERSION), (''exported_at'', PStr now),
                  (''apps'', PList (map to_dict apps))])"
    by (auto simp: export_template_def Let_def split: option.splits)
  show ?thesis
    by (simp add: import_template_def import_body_def l data_get_apps_def iterate_def
          from_dicts_to_dicts)
qed

text \<open>
  Claim C1.  For a non-empty sequence of entries \<open>E\<close>, when \<open>export_template\<close> has
  written its document to a path, \<open>import_template\<close> on that path returns no error and the
  entries of \<open>E\<close> in their order, each with its name, publisher, version, uninstall command,
  install path, source, \<open>winget_id\<close> and \<open>winget_status\<close> unchanged and with
  \<open>install_status\<close> and \<open>install_error\<close> set to the empty string.
\<close>

theorem export_import_round_trip:
  assumes "export_template (map boxed E) filepath now w = Inr w'" and "E \<noteq> []"
  shows "import_template w' filepath
           = (map (\<lambda>a. boxed (a\<lparr>install_status := [], install_error := []\<rparr>)) E, [])
       \<and> length (fst (import_template w' filepath)) = length E
       \<and> map name (fst (import_template w' filepath)) = map (\<lambda>a. PStr (name a)) E
       \<and> map publisher (fst (import_template w' filepath)) = map (\<lambda>a. PStr (publisher a)) E
       \<and> map version (fst (import_template w' filepath)) = map (\<lambda>a. PStr (version a)) E
       \<and> map uninstall_string (fst (import_template w' filepath))
           = map (\<lambda>a. PStr (uninstall_string a)) E
       \<and> map install_location (fst (import_template w' filepath))
           = map (\<lambda>a. PStr (install_location a)) E
       \<and> map source (fst (import_template w' filepath)) = map (\<lambda>a. PStr (source a)) E
       \<and> map winget_id (fst (import_template w' filepath)) = map (\<lambda>a. PStr (winget_id a)) E
       \<and> map winget_status (fst (import_template w' filepath))
           = map (\<lambda>a. PStr (winget_status a)) E
       \<and> map install_status (fst (import_template w' filepath)) = map (\<lambda>a. PStr []) E
       \<and> map install_error (fst (import_template w' filepath)) = map (\<lambda>a. PStr []) E"
proof -
  have r: "reset_install (boxed a) = boxed (a\<lparr>install_status := [], install_error := []\<rparr>)"
    for a
    by (simp add: reset_install_def boxed_def)
  have "import_template w' filepath
           = (map (\<lambda>a. boxed (a\<lparr>install_status := [], install_error := []\<rparr>)) E, [])"
    using import_after_export[OF assms(1)] by (simp add: r comp_def)
  then show ?thesis
    by (simp add: boxed_def comp_def)
qed

theorem export_import_round_trip_witness:
  "\<exists>w'. export_template (map boxed [sample_entry ''Foo'' ''Vendor.Foo'' ''found''])
           ''appvault_template.json'' ''2024-01-01T10:00:00'' (world_holding PNone) = Inr w'
        \<and> import_template w' ''appvault_template.json''
            = ([boxed ((sample_entry ''Foo'' ''Vendor.Foo'' ''found'')
                         \<lparr>install_status := [], install_error := []\<rparr>)], [])"
proof -
  have "\<exists>w'. export_template (map boxed [sample_entry ''Foo'' ''Vendor.Foo'' ''found''])
           ''appvault_template.json'' ''2024-01-01T10:00:00'' (world_holding PNone) = Inr w'"
    by (simp add: export_template_def world_holding_def Let_def)
  then obtain w' where
    e: "export_template (map boxed [sample_entry ''Foo'' ''Vendor.Foo'' ''found''])
          ''appvault_template.json'' ''2024-01-01T10:00:00'' (world_holding PNone) = Inr w'"
    by blast
  have ne: "[sample_entry ''Foo'' ''Vendor.Foo'' ''found''] \<noteq> []"
    by simp
  from export_import_round_trip [OF e ne]
  have "import_template w' ''appvault_template.json''
          = ([boxed ((sample_entry ''Foo'' ''Vendor.Foo'' ''found'')
                       \<lparr>install_status := [], install_error := []\<rparr>)], [])"
    by simp
  with e show ?thesis by blast
qed


lemma map_of_filter_fields:
  "k \<in> set dataclass_fields \<Longrightarrow>
     map_of (filter (\<lambda>(k, v). k \<in> set dataclass_fields) items) k = map_of items k"
  by (induction items) auto

lemma name_is_field: "''name'' \<in> set dataclass_fields"
  by (simp add: dataclass_fields_def)

lemma field_members:
  "''publisher'' \<in> set dataclass_fields" "''version'' \<in> set dataclass_fields"
  "''uninstall_string'' \<in> set dataclass_fields" "''install_location'' \<in> set dataclass_fields"
  "''source'' \<in> set dataclass_fields" "''winget_id'' \<in> set dataclass_fields"
  "''winget_status'' \<in> set dataclass_fields" "''install_status'' \<in> set dataclass_fields"
  "''install_error'' \<in> set dataclass_fields"
  by (simp_all add: dataclass_fields_def)

lemma kwarg_filter_fields:
  "k \<in> set dataclass_fields \<Longrightarrow>
     kwarg (filter (\<lambda>(k, v). k \<in> set dataclass_fields) items) k dflt = kwarg items k dflt"
  by (simp add: kwarg_def map_of_filter_fields)

lemma from_dict_PDict:
  "from_dict (PDict items) =
     (if ''name'' \<in> set (map fst items)
      then Inr ((entry_record items)
                 \<lparr>install_status := kwarg items ''install_status'' (PStr ''''),
                  install_error := kwarg items ''install_error'' (PStr '''')\<rparr>)
      else Inl (TypeError_missing_argument ''name''))"
proof (cases "map_of items ''name''")
  case None
  then have "''name'' \<notin> set (map fst items)"
    by (simp add: map_of_eq_None_iff)
  with None show ?thesis
    by (simp add: from_dict_def map_of_filter_fields name_is_field)
next
  case (Some n)
  then have "''name'' \<in> set (map fst items)"
    by (metis map_of_eq_None_iff option.distinct(1) set_map)
  moreover have "kwarg items ''name'' PNone = n"
    using Some by (simp add: kwarg_def)
  ultimately show ?thesis
    using Some
    by (simp add: from_dict_def map_of_filter_fields name_is_field entry_record_def
          kwarg_filter_fields field_members)
qed






lemma from_dicts_well_formed:
  "\<forall>d \<in> set ds. \<exists>fs. d = PDict fs \<and> ''name'' \<in> set (map fst fs) \<Longrightarrow>
     from_dicts ds
       = Inr (map (\<lambda>d. case d of PDict fs \<Rightarrow>
                    (entry_record fs)
                      \<lparr>install_status := kwarg fs ''install_status'' (PStr ''''),
                       install_error := kwarg fs ''install_error'' (PStr '''')\<rparr>) ds)"
proof (induction ds)
  case Nil
  show ?case by simp
next
  case (Cons d ds)
  from Cons.prems obtain fs where d: "d = PDict fs" "''name'' \<in> set (map fst fs)"
    by auto
  from Cons have "from_dicts ds
       = Inr (map (\<lambda>d. case d of PDict fs \<Rightarrow>
                    (entry_record fs)
                      \<lparr>install_status := kwarg fs ''install_status'' (PStr ''''),
                       install_error := kwarg fs ''install_error'' (PStr '''')\<rparr>) ds)"
    by simp
  with d show ?case
    by (simp add: from_dict_PDict)
qed

lemma from_dicts_missing_name:
  "\<forall>d \<in> set ds. \<exists>fs. d = PDict fs \<Longrightarrow> \<exists>d \<in> set ds. malformed_entry d \<Longrightarrow>
     from_dicts ds = Inl (TypeError_missing_argument ''name'')"
proof (induction ds)
  case Nil
  then show ?case by simp
next
  case (Cons d ds)
  from Cons.prems(1) obtain fs where d: "d = PDict fs" by auto
  show ?case
  proof (cases "''name'' \<in> set (map fst fs)")
    case True
    with d have "\<not> malformed_entry d" by (simp add: malformed_entry_def)
    with Cons.prems have "\<exists>d \<in> set ds. malformed_entry d" by simp
    with Cons have "from_dicts ds = Inl (TypeError_missing_argument ''name'')" by simp
    with d True show ?thesis by (simp add: from_dict_PDict)
  next
    case False
    with d show ?thesis by (simp add: from_dict_PDict)
  qed
qed

text \<open>
  Claim C10, as the code has it.  For a document whose \<open>apps\<close> member is a list of
  objects: when every entry has the key \<open>name\<close>, the import succeeds and each record has
  its fields from the items of its entry, a key that is not a field being ignored and a
  missing field other than \<open>name\<close> taking the default of the class, which is the empty
  string for all of them but \<open>winget_status\<close>, whose default is "unknown"
  (\<open>install_status\<close> and \<open>install_error\<close> are empty in any case); when some entry lacks
  the key \<open>name\<close>, the import returns the empty list and a message that is not empty.
\<close>

theorem import_template_entry_keys:
  assumes "load_json w p = Inr (PDict items)"
      and "map_of items ''apps'' = Some (PList ds)"
      and "\<forall>d \<in> set ds. \<exists>fs. d = PDict fs"
  shows "((\<forall>d \<in> set ds. \<not> malformed_entry d) \<longrightarrow>
            import_template w p
              = (map (\<lambda>d. case d of PDict fs \<Rightarrow> entry_record fs) ds, []))
       \<and> ((\<exists>d \<in> set ds. malformed_entry d) \<longrightarrow>
            import_template w p = ([], str_exn (TypeError_missing_argument ''name''))
            \<and> str_exn (TypeError_missing_argument ''name'') \<noteq> [])
       \<and> (k \<notin> set dataclass_fields \<longrightarrow> entry_record ((k, v) # fs) = entry_record fs)
       \<and> entry_record [(''name'', n)]
           = \<lparr>name = n, publisher = PStr [], version = PStr [], uninstall_string = PStr [],
              install_location = PStr [], source = PStr [], winget_id = PStr [],
              winget_status = PStr ''unknown'', install_status = PStr [],
              install_error = PStr []\<rparr>"
proof -
  have a: "(\<forall>d \<in> set ds. \<not> malformed_entry d) \<longrightarrow>
            import_template w p
              = (map (\<lambda>d. case d of PDict fs \<Rightarrow> entry_record fs) ds, [])"
  proof
    assume ok: "\<forall>d \<in> set ds. \<not> malformed_entry d"
    have wf: "\<forall>d \<in> set ds. \<exists>fs. d = PDict fs \<and> ''name'' \<in> set (map fst fs)"
    proof
      fix d assume m: "d \<in> set ds"
      with assms(3) obtain fs where "d = PDict fs" by blast
      moreover from ok m have "\<not> malformed_entry d" by blast
      ultimately show "\<exists>fs. d = PDict fs \<and> ''name'' \<in> set (map fst fs)"
        by (simp add: malformed_entry_def)
    qed
    have "map reset_install
            (map (\<lambda>d. case d of PDict fs \<Rightarrow>
                    (entry_record fs)
                      \<lparr>install_status := kwarg fs ''install_status'' (PStr ''''),
                       install_error := kwarg fs ''install_error'' (PStr '''')\<rparr>) ds)
          = map (\<lambda>d. case d of PDict fs \<Rightarrow> entry_record fs) ds"
      using assms(3)
      by (auto simp: reset_install_def entry_record_def)
    with from_dicts_well_formed[OF wf] assms(1,2)
    show "import_template w p
              = (map (\<lambda>d. case d of PDict fs \<Rightarrow> entry_record fs) ds, [])"
      by (simp add: import_template_def import_body_def data_get_apps_def iterate_def)
  qed
  have b: "(\<exists>d \<in> set ds. malformed_entry d) \<longrightarrow>
            import_template w p = ([], str_exn (TypeError_missing_argument ''name''))
            \<and> str_exn (TypeError_missing_argument ''name'') \<noteq> []"
  proof
    assume "\<exists>d \<in> set ds. malformed_entry d"
    from from_dicts_missing_name[OF assms(3) this] assms(1,2)
    show "import_template w p = ([], str_exn (TypeError_missing_argument ''name''))
            \<and> str_exn (TypeError_missing_argument ''name'') \<noteq> []"
      by (simp add: import_template_def import_body_def data_get_apps_def iterate_def
            str_exn_nonempty)
  qed
  have c: "k \<notin> set dataclass_fields \<longrightarrow> entry_record ((k, v) # fs) = entry_record fs"
    by (auto simp: entry_record_def kwarg_def dataclass_fields_def)
  have d: "entry_record [(''name'', n)]
           = \<lparr>name = n, publisher = PStr [], version = PStr [], uninstall_string = PStr [],
              install_location = PStr [], source = PStr [], winget_id = PStr [],
              winget_status = PStr ''unknown'', install_status = PStr [],
              install_error = PStr []\<rparr>"
    by (simp add: entry_record_def kwarg_def)
  from a b c d show ?thesis by blast
qed

theorem import_template_entry_keys_witness:
  "import_template
     (world_holding
        (PDict [(''apps'', PList [PDict [(''name'', PStr ''A''), (''colour'', PStr ''red'')]])]))
     ''t.json''
     = ([entry_record [(''name'', PStr ''A''), (''colour'', PStr ''red'')]], [])
   \<and> entry_record [(''colour'', PStr ''red''), (''name'', PStr ''A'')]
       = entry_record [(''name'', PStr ''A'')]
   \<and> import_template
       (world_holding (PDict [(''apps'', PList [PDict [(''publisher'', PStr ''P'')]])]))
       ''t.json''
       = ([], str_exn (TypeError_missing_argument ''name''))"
proof -
  have l1: "load_json
              (world_holding
                 (PDict [(''apps'',
                          PList [PDict [(''name'', PStr ''A''), (''colour'', PStr ''red'')]])]))
              ''t.json''
            = Inr (PDict [(''apps'',
                           PList [PDict [(''name'', PStr ''A''), (''colour'', PStr ''red'')]])])"
    by (simp add: world_holding_def)
  have m1: "map_of [(''apps'', PList [PDict [(''name'', PStr ''A''), (''colour'', PStr ''red'')]])]
              ''apps''
            = Some (PList [PDict [(''name'', PStr ''A''), (''colour'', PStr ''red'')]])"
    by simp
  have d1: "\<forall>d \<in> set [PDict [(''name'', PStr ''A''), (''colour'', PStr ''red'')]].
              \<exists>fs. d = PDict fs"
    by simp
  have ok1: "\<forall>d \<in> set [PDict [(''name'', PStr ''A''), (''colour'', PStr ''red'')]].
               \<not> malformed_entry d"
    by (simp add: malformed_entry_def)
  have nf: "''colour'' \<notin> set dataclass_fields"
    by (simp add: dataclass_fields_def)
  note t1 = import_template_entry_keys
              [OF l1 m1 d1, where k = "''colour''" and v = "PStr ''red''"
                 and fs = "[(''name'', PStr ''A'')]"]
  from t1 ok1
  have 1: "import_template
             (world_holding
                (PDict [(''apps'',
                         PList [PDict [(''name'', PStr ''A''), (''colour'', PStr ''red'')]])]))
             ''t.json''
           = ([entry_record [(''name'', PStr ''A''), (''colour'', PStr ''red'')]], [])"
    by simp
  from t1 nf
  have 2: "entry_record [(''colour'', PStr ''red''), (''name'', PStr ''A'')]
             = entry_record [(''name'', PStr ''A'')]"
    by blast
  have l2: "load_json
              (world_holding (PDict [(''apps'', PList [PDict [(''publisher'', PStr ''P'')]])]))
              ''t.json''
            = Inr (PDict [(''apps'', PList [PDict [(''publisher'', PStr ''P'')]])])"
    by (simp add: world_holding_def)
  have m2: "map_of [(''apps'', PList [PDict [(''publisher'', PStr ''P'')]])] ''apps''
            = Some (PList [PDict [(''publisher'', PStr ''P'')]])"
    by simp
  have d2: "\<forall>d \<in> set [PDict [(''publisher'', PStr ''P'')]]. \<exists>fs. d = PDict fs"
    by simp
  have bad2: "\<exists>d \<in> set [PDict [(''publisher'', PStr ''P'')]]. malformed_entry d"
    by (simp add: malformed_entry_def)
  from import_template_entry_keys
         [OF l2 m2 d2] bad2
  have 3: "import_template
             (world_holding (PDict [(''apps'', PList [PDict [(''publisher'', PStr ''P'')]])]))
             ''t.json''
           = ([], str_exn (TypeError_missing_argument ''name''))"
    by blast
  from 1 2 3 show ?thesis by blast
qed


text \<open>
  Claim C10 as it is worded fails: an entry that has only a name is imported with
  \<open>winget_status\<close> "unknown", which is not an empty value.
\<close>

theorem import_default_winget_status_not_empty:
  "import_template (world_holding (PDict [(''apps'', PList [PDict [(''name'', PStr ''A'')]])]))
     ''template.json''
   = ([\<lparr>name = PStr ''A'', publisher = PStr [], version = PStr [], uninstall_string = PStr [],
        install_location = PStr [], source = PStr [], winget_id = PStr [],
        winget_status = PStr ''unknown'', install_status = PStr [],
        install_error = PStr []\<rparr>], [])"
  by code_simp


text \<open>
  Claim C3, as the code has it.  \<open>export_ps1\<close> writes the text to the file at
  \<open>filepath\<close> and returns the two counts.  The counts depend on the entries only, and add
  up to their number.  The text depends on the entries and on the clock, read to the minute,
  and not on the path: two calls on the same entries write texts whose lines differ at most
  in the third, "Generated", line, so they write the same text when the clock shows the same
  minute.
\<close>

theorem export_ps1_depends_on_clock:
  "export_ps1 apps filepath now
     = ((filepath, join newline (ps1_lines apps now)),
        (length (filter (\<lambda>a. winget_id a \<noteq> []) apps),
         length (filter (\<lambda>a. winget_id a = []) apps)))
   \<and> snd (export_ps1 apps filepath now) = snd (export_ps1 apps filepath' now')
   \<and> snd (fst (export_ps1 apps filepath now)) = snd (fst (export_ps1 apps filepath' now))
   \<and> ps1_lines apps now = (ps1_lines apps now')[2 := ''#  Generated : '' @ now]
   \<and> fst (snd (export_ps1 apps filepath now)) + snd (snd (export_ps1 apps filepath now))
       = length apps"
proof -
  have "ps1_lines apps now = (ps1_lines apps now')[2 := ''#  Generated : '' @ now]"
    by (simp add: ps1_lines_def Let_def)
  moreover have "length (filter (\<lambda>a. winget_id a \<noteq> []) apps)
                   + length (filter (\<lambda>a. winget_id a = []) apps) = length apps"
    using sum_length_filter_compl[of "\<lambda>a. winget_id a \<noteq> []" apps] by simp
  ultimately show ?thesis
    by (simp add: export_ps1_def Let_def)
qed

theorem export_ps1_depends_on_clock_witness:
  "snd (export_ps1 [sample_entry ''Foo'' ''Vendor.Foo'' ''found'',
                    sample_entry ''Bar'' [] ''not_found''] ''a.ps1'' ''2024-01-01 10:00'')
     = snd (export_ps1 [sample_entry ''Foo'' ''Vendor.Foo'' ''found'',
                        sample_entry ''Bar'' [] ''not_found''] ''b.ps1'' ''2024-01-01 10:01'')
   \<and> fst (snd (export_ps1 [sample_entry ''Foo'' ''Vendor.Foo'' ''found'',
                          sample_entry ''Bar'' [] ''not_found''] ''a.ps1'' ''2024-01-01 10:00''))
       + snd (snd (export_ps1 [sample_entry ''Foo'' ''Vendor.Foo'' ''found'',
                               sample_entry ''Bar'' [] ''not_found''] ''a.ps1''
                     ''2024-01-01 10:00''))
       = 2"
proof -
  note th = export_ps1_depends_on_clock
          [where apps = "[sample_entry ''Foo'' ''Vendor.Foo'' ''found'',
                          sample_entry ''Bar'' [] ''not_found'']"
             and filepath = "''a.ps1''" and now = "''2024-01-01 10:00''"
             and filepath' = "''b.ps1''" and now' = "''2024-01-01 10:01''"]
  from th
  have a: "snd (export_ps1 [sample_entry ''Foo'' ''Vendor.Foo'' ''found'',
                            sample_entry ''Bar'' [] ''not_found''] ''a.ps1'' ''2024-01-01 10:00'')
     = snd (export_ps1 [sample_entry ''Foo'' ''Vendor.Foo'' ''found'',
                        sample_entry ''Bar'' [] ''not_found''] ''b.ps1'' ''2024-01-01 10:01'')"
    by blast
  from th
  have "fst (snd (export_ps1 [sample_entry ''Foo'' ''Vendor.Foo'' ''found'',
                          sample_entry ''Bar'' [] ''not_found''] ''a.ps1'' ''2024-01-01 10:00''))
       + snd (snd (export_ps1 [sample_entry ''Foo'' ''Vendor.Foo'' ''found'',
                               sample_entry ''Bar'' [] ''not_found''] ''a.ps1''
                     ''2024-01-01 10:00''))
       = length [sample_entry ''Foo'' ''Vendor.Foo'' ''found'',
                 sample_entry ''Bar'' [] ''not_found'']"
    by blast
  then
  have b: "fst (snd (export_ps1 [sample_entry ''Foo'' ''Vendor.Foo'' ''found'',
                          sample_entry ''Bar'' [] ''not_found''] ''a.ps1'' ''2024-01-01 10:00''))
       + snd (snd (export_ps1 [sample_entry ''Foo'' ''Vendor.Foo'' ''found'',
                               sample_entry ''Bar'' [] ''not_found''] ''a.ps1''
                     ''2024-01-01 10:00''))
       = 2"
    by simp
  from a b show ?thesis by blast
qed

text \<open>
  Claim C3 as it is worded fails: the same entries (none) exported to the same path one
  minute apart give two different texts.
\<close>

theorem export_ps1_text_changes_with_clock:
  "snd (fst (export_ps1 [] ''install.ps1'' ''2024-01-01 10:00''))
     \<noteq> snd (fst (export_ps1 [] ''install.ps1'' ''2024-01-01 10:01''))"
  by code_simp

end
